theory Spec2Isabelle
  imports Main
begin

section \<open>JavaScript values handled by the playground fetcher\<close>

text \<open>
  The request builder of \<^verbatim>\<open>packages/openapi/src/ui/playground/fetcher.ts\<close> receives
  the form value as \<^verbatim>\<open>unknown\<close>. The values a form produces are trees: primitives,
  opaque \<^verbatim>\<open>File\<close> handles, dense arrays and plain objects. An object is the list of its own
  enumerable properties in property order. The type parameter \<open>'n\<close> is the carrier of
  JavaScript numbers; what the engine does with numbers is taken from a \<open>platform\<close> record,
  the rest is written out.
\<close>

datatype 'n jsval =
    JUndefined
  | JNull
  | JBool bool
  | JNum 'n
  | JStr string
  | JFile nat
  | JArr "'n jsval list"
  | JObj "(string \<times> 'n jsval) list"

text \<open>
  A thrown value, or the reason of a rejected promise: an \<^verbatim>\<open>Error\<close> object with its
  \<^verbatim>\<open>name\<close> and \<^verbatim>\<open>message\<close>, or any other value, kept as the text its
  \<^verbatim>\<open>toString()\<close> returns.
\<close>

datatype thrown = ErrorObj string string | NonError string

text \<open>
  The primitives of the engine and of the browser that the module calls and that are not
  code of the repository: \<^verbatim>\<open>Number(value)\<close>, the text of a number, whether a number is
  finite (\<^verbatim>\<open>JSON.stringify\<close> writes \<^verbatim>\<open>null\<close> for the others), whether a number is
  truthy, and whether \<^verbatim>\<open>Headers.append\<close> accepts a name and a value (it throws a
  \<^verbatim>\<open>TypeError\<close> otherwise).
\<close>

record 'n platform =
  to_number :: "'n jsval \<Rightarrow> 'n"
  number_to_string :: "'n \<Rightarrow> string"
  number_is_finite :: "'n \<Rightarrow> bool"
  number_is_truthy :: "'n \<Rightarrow> bool"
  header_accepted :: "string \<Rightarrow> string \<Rightarrow> bool"

text \<open>\<^verbatim>\<open>String(index)\<close> for an array index: its decimal digits.\<close>

fun show_nat :: "nat \<Rightarrow> string" where
  "show_nat n =
     (if n < 10 then [''0123456789'' ! n]
      else show_nat (n div 10) @ [''0123456789'' ! (n mod 10)])"

declare show_nat.simps [simp del]

fun js_typeof :: "'n jsval \<Rightarrow> string" where
  "js_typeof JUndefined = ''undefined''"
| "js_typeof (JBool _) = ''boolean''"
| "js_typeof (JNum _) = ''number''"
| "js_typeof (JStr _) = ''string''"
| "js_typeof _ = ''object''"

fun join :: "string \<Rightarrow> string list \<Rightarrow> string" where
  "join sep [] = []"
| "join sep [x] = x"
| "join sep (x # y # ys) = x @ sep @ join sep (y # ys)"

text \<open>
  \<^verbatim>\<open>String(value)\<close>: an array is the comma-joined text of its elements, where
  \<^verbatim>\<open>undefined\<close> and \<^verbatim>\<open>null\<close> elements give the empty text.
\<close>

fun js_String :: "'n platform \<Rightarrow> 'n jsval \<Rightarrow> string" where
  "js_String rt JUndefined = ''undefined''"
| "js_String rt JNull = ''null''"
| "js_String rt (JBool b) = (if b then ''true'' else ''false'')"
| "js_String rt (JNum n) = number_to_string rt n"
| "js_String rt (JStr s) = s"
| "js_String rt (JFile _) = ''[object File]''"
| "js_String rt (JArr xs) =
     join '','' (map (\<lambda>x. if x = JUndefined \<or> x = JNull then [] else js_String rt x) xs)"
| "js_String rt (JObj _) = ''[object Object]''"

text \<open>Truthiness, as the condition \<^verbatim>\<open>prop && ...\<close> reads it.\<close>

fun truthy :: "'n platform \<Rightarrow> 'n jsval \<Rightarrow> bool" where
  "truthy rt JUndefined = False"
| "truthy rt JNull = False"
| "truthy rt (JBool b) = b"
| "truthy rt (JNum n) = number_is_truthy rt n"
| "truthy rt (JStr s) = (s \<noteq> [])"
| "truthy rt _ = True"

text \<open>
  The own enumerable properties of a value whose \<^verbatim>\<open>typeof\<close> is \<^verbatim>\<open>'object'\<close>: those of
  an array are its elements under their indices, a \<^verbatim>\<open>File\<close> has none.
  \<^verbatim>\<open>Object.keys(value)\<close> lists the names, \<^verbatim>\<open>value[key]\<close> reads one and gives
  \<^verbatim>\<open>undefined\<close> for a name that is not there.
\<close>

fun own_properties :: "'n jsval \<Rightarrow> (string \<times> 'n jsval) list" where
  "own_properties (JObj kvs) = kvs"
| "own_properties (JArr xs) = zip (map show_nat [0..<length xs]) xs"
| "own_properties _ = []"

definition Object_keys :: "'n jsval \<Rightarrow> string list" where
  "Object_keys v = map fst (own_properties v)"

definition js_get :: "'n jsval \<Rightarrow> string \<Rightarrow> 'n jsval" where
  "js_get v key = (case map_of (own_properties v) key of Some x \<Rightarrow> x | None \<Rightarrow> JUndefined)"

text \<open>
  \<^verbatim>\<open>Object.fromEntries(entries)\<close> defines the properties one after the other: a name
  that is already there keeps its place and takes the new value. (The engine lists
  integer-like names before the others; the entries here come from \<^verbatim>\<open>Object.keys\<close> of an
  object and are in that order already.)
\<close>

fun set_property :: "string \<Rightarrow> 'a \<Rightarrow> (string \<times> 'a) list \<Rightarrow> (string \<times> 'a) list" where
  "set_property k v [] = [(k, v)]"
| "set_property k v (p # ps) = (if fst p = k then (k, v) # ps else p # set_property k v ps)"

definition Object_fromEntries :: "(string \<times> 'n jsval) list \<Rightarrow> 'n jsval" where
  "Object_fromEntries entries = JObj (foldl (\<lambda>acc (k, v). set_property k v acc) [] entries)"

section \<open>Schemas, references and dynamic fields\<close>

text \<open>
  Modelled from the spec: the types \<^verbatim>\<open>RequestSchema\<close> and \<^verbatim>\<open>ReferenceSchema\<close> are
  declared in \<^verbatim>\<open>@/render/playground\<close>, which is not among the sources. The variants are
  those of the data model: \<^verbatim>\<open>object\<close> with its properties and the flag for additional
  properties, \<^verbatim>\<open>array\<close> with its item schema, the primitives, \<^verbatim>\<open>file\<close>,
  \<^verbatim>\<open>switcher\<close>, \<^verbatim>\<open>null\<close>, and the reference by name. Every variant but the reference
  carries \<^verbatim>\<open>isRequired\<close>, the first argument of its constructor. The properties of an
  object schema are a plain record: \<^verbatim>\<open>key in schema.properties\<close> is membership among its
  own names (the names inherited from \<^verbatim>\<open>Object.prototype\<close> are left out of the model).
\<close>

datatype schema =
    SObject bool "(string \<times> schema) list" bool
  | SArray bool schema
  | SString bool
  | SNumber bool
  | SBoolean bool
  | SFile bool
  | SSwitcher bool
  | SNull bool
  | SRef string

text \<open>\<^verbatim>\<open>schema.isRequired\<close>; a reference has no such field, and \<^verbatim>\<open>undefined\<close> is falsy.\<close>

fun isRequired :: "schema \<Rightarrow> bool" where
  "isRequired (SObject r _ _) = r"
| "isRequired (SArray r _) = r"
| "isRequired (SString r) = r"
| "isRequired (SNumber r) = r"
| "isRequired (SBoolean r) = r"
| "isRequired (SFile r) = r"
| "isRequired (SSwitcher r) = r"
| "isRequired (SNull r) = r"
| "isRequired (SRef _) = False"

fun schema_type :: "schema \<Rightarrow> string" where
  "schema_type (SObject _ _ _) = ''object''"
| "schema_type (SArray _ _) = ''array''"
| "schema_type (SString _) = ''string''"
| "schema_type (SNumber _) = ''number''"
| "schema_type (SBoolean _) = ''boolean''"
| "schema_type (SFile _) = ''file''"
| "schema_type (SSwitcher _) = ''switcher''"
| "schema_type (SNull _) = ''null''"
| "schema_type (SRef _) = ''ref''"

text \<open>
  Modelled from the spec: \<^verbatim>\<open>resolve\<close> is imported from \<^verbatim>\<open>@/ui/playground/resolve\<close>,
  which is not among the sources. A reference is looked up in the table, one hop; a name
  that is absent gives \<^verbatim>\<open>undefined\<close> (here \<open>None\<close>); a schema that is not a reference is
  returned unchanged.
\<close>

definition resolve :: "schema \<Rightarrow> (string \<rightharpoonup> schema) \<Rightarrow> schema option" where
  "resolve s references = (case s of SRef name \<Rightarrow> references name | _ \<Rightarrow> Some s)"

text \<open>
  Modelled from the spec: the type \<^verbatim>\<open>DynamicField\<close> is declared in
  \<^verbatim>\<open>@/ui/contexts/schema\<close>, which is not among the sources. An entry of type
  \<^verbatim>\<open>'field'\<close> carries a schema; any other entry carries none that the fetcher reads.
\<close>

datatype dynamic_field = FieldEntry schema | OtherEntry

definition getDynamicFieldSchema :: "string \<Rightarrow> (string \<rightharpoonup> dynamic_field) \<Rightarrow> schema" where
  "getDynamicFieldSchema name dynamicFields =
     (case dynamicFields name of
        Some (FieldEntry s) \<Rightarrow> s
      | _ \<Rightarrow> SNull False)"

section \<open>Value conversion\<close>

text \<open>
  \<^verbatim>\<open>Array.prototype.map\<close> with a callback that may throw or not return: the elements are
  visited in order, and the first one that does not give a value ends the walk.
\<close>

primrec map_results :: "('a \<Rightarrow> (thrown + 'b) option) \<Rightarrow> 'a list \<Rightarrow> (thrown + 'b list) option" where
  "map_results f [] = Some (Inr [])"
| "map_results f (x # xs) =
     (case f x of
        None \<Rightarrow> None
      | Some (Inl e) \<Rightarrow> Some (Inl e)
      | Some (Inr y) \<Rightarrow>
          (case map_results f xs of
             None \<Rightarrow> None
           | Some (Inl e) \<Rightarrow> Some (Inl e)
           | Some (Inr ys) \<Rightarrow> Some (Inr (y # ys))))"

lemma map_results_mono [partial_function_mono]:
  fixes F :: "('p \<Rightarrow> 'q option) \<Rightarrow> 'a \<Rightarrow> (thrown + 'b) option"
  assumes "\<And>x. mono_option (\<lambda>f. F f x)"
  shows "mono_option (\<lambda>f. map_results (F f) xs)"
proof (rule monotoneI)
  fix f g :: "'p \<Rightarrow> 'q option"
  assume fg: "fun_ord option_ord f g"
  have "option_ord (F f x) (F g x)" for x
    using assms [of x] fg unfolding monotone_def by blast
  then have step: "F f x = None \<or> F f x = F g x" for x
    by (simp add: flat_ord_def)
  have "map_results (F f) xs = None \<or> map_results (F f) xs = map_results (F g) xs"
  proof (induction xs)
    case Nil
    show ?case by simp
  next
    case (Cons x xs)
    show ?case
    proof (cases "F f x = None")
      case True
      then show ?thesis by simp
    next
      case False
      with step [of x] have eq: "F f x = F g x" by simp
      from Cons show ?thesis
      proof
        assume "map_results (F f) xs = None"
        then show ?thesis by (simp add: eq split: option.split sum.split)
      next
        assume "map_results (F f) xs = map_results (F g) xs"
        then show ?thesis by (simp add: eq split: option.split sum.split)
      qed
    qed
  qed
  then show "option_ord (map_results (F f) xs) (map_results (F g) xs)"
    by (simp add: flat_ord_def)
qed

definition isEmpty :: "'n jsval \<Rightarrow> bool" where
  "isEmpty v = (v = JStr [] \<or> v = JUndefined \<or> v = JNull)"

text \<open>
  Reading \<^verbatim>\<open>schema.isRequired\<close> or \<^verbatim>\<open>schema.type\<close> when \<^verbatim>\<open>resolve\<close> has returned
  \<^verbatim>\<open>undefined\<close> throws.
\<close>

definition undefined_schema_error :: thrown where
  "undefined_schema_error = ErrorObj ''TypeError'' ''Cannot read properties of undefined''"

text \<open>
  \<^verbatim>\<open>convertValue\<close>. The result is \<open>None\<close> when the call does not return, \<open>Some (Inl e)\<close>
  when it throws \<open>e\<close>, and \<open>Some (Inr r)\<close> when it returns \<open>r\<close>. After the two emptiness
  tests the branches are told apart by the type of the schema, in the order of the source: the
  array branch needs an array value and the object branch a value whose \<^verbatim>\<open>typeof\<close> is
  \<^verbatim>\<open>'object'\<close>; without it these two types fall to the \<^verbatim>\<open>default\<close> of the final
  \<^verbatim>\<open>switch\<close>. The \<^verbatim>\<open>console.warn\<close> of the pass-through case has no effect on the result.
\<close>

partial_function (option) convertValue ::
  "'n platform \<Rightarrow> string \<Rightarrow> 'n jsval \<Rightarrow> schema option \<Rightarrow> (string \<rightharpoonup> schema)
     \<Rightarrow> (string \<rightharpoonup> dynamic_field) \<Rightarrow> (thrown + 'n jsval) option"
where
  "convertValue rt fieldName v schema_opt references dynamicFields =
     (case schema_opt of
        None \<Rightarrow> Some (Inl undefined_schema_error)
      | Some schema \<Rightarrow>
          if isEmpty v \<and> isRequired schema then
            Some (Inr (if schema_type schema = ''boolean'' then JBool False else JStr []))
          else if isEmpty v then Some (Inr JUndefined)
          else
            (case schema of
               SArray _ items \<Rightarrow>
                 (case v of
                    JArr xs \<Rightarrow>
                      Option.bind
                        (map_results
                          (\<lambda>(index, item).
                             convertValue rt (fieldName @ ''.'' @ show_nat index) item
                               (resolve items references) references dynamicFields)
                          (enumerate 0 xs))
                        (\<lambda>r. Some (map_sum id JArr r))
                  | _ \<Rightarrow> Some (Inr (JStr (js_String rt v))))
             | SSwitcher _ \<Rightarrow>
                 convertValue rt fieldName v
                   (resolve (getDynamicFieldSchema fieldName dynamicFields) references)
                   references dynamicFields
             | SObject _ properties additionalProperties \<Rightarrow>
                 if js_typeof v = ''object'' then
                   Option.bind
                     (map_results
                       (\<lambda>key.
                          let prop = js_get v key;
                              propFieldName = fieldName @ ''.'' @ key
                          in case map_of properties key of
                               Some p \<Rightarrow>
                                 Option.bind
                                   (convertValue rt propFieldName prop (resolve p references)
                                      references dynamicFields)
                                   (\<lambda>r. Some (map_sum id (Pair key) r))
                             | None \<Rightarrow>
                                 if additionalProperties then
                                   Option.bind
                                     (convertValue rt propFieldName prop
                                        (resolve (getDynamicFieldSchema propFieldName dynamicFields)
                                           references)
                                        references dynamicFields)
                                     (\<lambda>r. Some (map_sum id (Pair key) r))
                                 else Some (Inr (key, prop)))
                       (Object_keys v))
                     (\<lambda>r. Some (map_sum id Object_fromEntries r))
                 else Some (Inr (JStr (js_String rt v)))
             | SNumber _ \<Rightarrow> Some (Inr (JNum (to_number rt v)))
             | SBoolean _ \<Rightarrow>
                 Some (Inr (if v = JStr ''null'' then JUndefined else JBool (v = JStr ''true'')))
             | SFile _ \<Rightarrow> Some (Inr v)
             | _ \<Rightarrow> Some (Inr (JStr (js_String rt v)))))"

section \<open>JSON serialization\<close>

text \<open>
  \<^verbatim>\<open>JSON.stringify\<close> in two steps, as the language standard describes it: the value is
  first turned into a JSON tree (or into nothing, when it is \<^verbatim>\<open>undefined\<close>), then the tree
  is written as text. In an array an \<^verbatim>\<open>undefined\<close> element is written \<^verbatim>\<open>null\<close>; in
  an object a property whose value is \<^verbatim>\<open>undefined\<close> is left out; a \<^verbatim>\<open>File\<close> has no
  enumerable property and is written \<^verbatim>\<open>{}\<close>; a number that is not finite is written
  \<^verbatim>\<open>null\<close>.
\<close>

datatype json =
    JsonNull
  | JsonBool bool
  | JsonNumber string
  | JsonString string
  | JsonArray "json list"
  | JsonObject "(string \<times> json) list"

fun serialize_property :: "'n platform \<Rightarrow> 'n jsval \<Rightarrow> json option" where
  "serialize_property rt JUndefined = None"
| "serialize_property rt JNull = Some JsonNull"
| "serialize_property rt (JBool b) = Some (JsonBool b)"
| "serialize_property rt (JNum n) =
     Some (if number_is_finite rt n then JsonNumber (number_to_string rt n) else JsonNull)"
| "serialize_property rt (JStr s) = Some (JsonString s)"
| "serialize_property rt (JFile _) = Some (JsonObject [])"
| "serialize_property rt (JArr xs) =
     Some (JsonArray
       (map (\<lambda>x. case serialize_property rt x of None \<Rightarrow> JsonNull | Some j \<Rightarrow> j) xs))"
| "serialize_property rt (JObj kvs) =
     Some (JsonObject
       (concat (map (\<lambda>(k, v). case serialize_property rt v of None \<Rightarrow> [] | Some j \<Rightarrow> [(k, j)])
          kvs)))"

definition hex_digit :: "nat \<Rightarrow> char" where
  "hex_digit d = ''0123456789abcdef'' ! d"

text \<open>
  The escapes of a quoted string: the quote, the backslash, the five short escapes, and
  \<^verbatim>\<open>\u00XX\<close> for every other code below \<^verbatim>\<open>0x20\<close>.
\<close>

definition escape_char :: "char \<Rightarrow> string" where
  "escape_char c =
     (if c = CHR 0x22 then [CHR 0x5C, CHR 0x22]
      else if c = CHR 0x5C then [CHR 0x5C, CHR 0x5C]
      else if c = CHR 0x08 then [CHR 0x5C, CHR ''b'']
      else if c = CHR 0x0C then [CHR 0x5C, CHR ''f'']
      else if c = CHR 0x0A then [CHR 0x5C, CHR ''n'']
      else if c = CHR 0x0D then [CHR 0x5C, CHR ''r'']
      else if c = CHR 0x09 then [CHR 0x5C, CHR ''t'']
      else if (of_char c :: nat) < 32 then
        [CHR 0x5C, CHR ''u'', CHR ''0'', CHR ''0'',
         hex_digit ((of_char c :: nat) div 16), hex_digit ((of_char c :: nat) mod 16)]
      else [c])"

definition quote_json :: "string \<Rightarrow> string" where
  "quote_json s = CHR 0x22 # concat (map escape_char s) @ [CHR 0x22]"

fun render_json :: "json \<Rightarrow> string" where
  "render_json JsonNull = ''null''"
| "render_json (JsonBool b) = (if b then ''true'' else ''false'')"
| "render_json (JsonNumber s) = s"
| "render_json (JsonString s) = quote_json s"
| "render_json (JsonArray js) = ''['' @ join '','' (map render_json js) @ '']''"
| "render_json (JsonObject ms) =
     ''{'' @ join '','' (map (\<lambda>(k, j). quote_json k @ '':'' @ render_json j) ms) @ ''}''"

text \<open>\<^verbatim>\<open>JSON.stringify(value)\<close>: \<open>None\<close> is the result \<^verbatim>\<open>undefined\<close>.\<close>

definition JSON_stringify :: "'n platform \<Rightarrow> 'n jsval \<Rightarrow> string option" where
  "JSON_stringify rt v = map_option render_json (serialize_property rt v)"

section \<open>Body construction\<close>

text \<open>
  A \<^verbatim>\<open>FormData\<close> is the list of its entries. \<^verbatim>\<open>append\<close> adds an entry at the end;
  \<^verbatim>\<open>set\<close> replaces the first entry of that name and removes the others of that name, or
  adds the entry when the name is new.
\<close>

datatype form_value = FormFile nat | FormText string

type_synonym form_data = "(string \<times> form_value) list"

definition formdata_append :: "string \<Rightarrow> form_value \<Rightarrow> form_data \<Rightarrow> form_data" where
  "formdata_append name v fd = fd @ [(name, v)]"

fun formdata_set :: "string \<Rightarrow> form_value \<Rightarrow> form_data \<Rightarrow> form_data" where
  "formdata_set name v [] = [(name, v)]"
| "formdata_set name v (e # es) =
     (if fst e = name then (name, v) # filter (\<lambda>e'. fst e' \<noteq> name) es
      else e # formdata_set name v es)"

fun is_File :: "'n jsval \<Rightarrow> bool" where
  "is_File (JFile _) = True"
| "is_File _ = False"

text \<open>
  The text a value is stored as by \<^verbatim>\<open>formData.set(key, JSON.stringify(prop))\<close>; the
  result \<^verbatim>\<open>undefined\<close> would be stored as the text \<^verbatim>\<open>undefined\<close>.
\<close>

definition form_text :: "'n platform \<Rightarrow> 'n jsval \<Rightarrow> form_value" where
  "form_text rt prop =
     FormText (case JSON_stringify rt prop of None \<Rightarrow> ''undefined'' | Some s \<Rightarrow> s)"

text \<open>
  The body of the loop over \<^verbatim>\<open>Object.keys(result)\<close>: three \<^verbatim>\<open>if\<close> statements, one after
  the other and none of them an \<^verbatim>\<open>else\<close> of another.
\<close>

definition add_property :: "'n platform \<Rightarrow> string \<Rightarrow> 'n jsval \<Rightarrow> form_data \<Rightarrow> form_data" where
  "add_property rt key prop formData =
     (let fd1 = (case prop of
                   JFile f \<Rightarrow> formdata_set key (FormFile f) formData
                 | _ \<Rightarrow> formData);
          fd2 = (case prop of
                   JArr items \<Rightarrow>
                     if list_all is_File items then
                       foldl (\<lambda>fd item. case item of
                                  JFile f \<Rightarrow> formdata_append key (FormFile f) fd
                                | _ \<Rightarrow> fd) fd1 items
                     else fd1
                 | _ \<Rightarrow> fd1)
      in if truthy rt prop \<and> \<not> is_File prop then formdata_set key (form_text rt prop) fd2
         else fd2)"

datatype encoding = FormDataEncoding | JsonEncoding

text \<open>
  A request body: none (\<^verbatim>\<open>undefined\<close>), a text or a \<^verbatim>\<open>FormData\<close>.
\<close>

datatype request_body = NoBody | TextBody string | FormBody form_data

definition unsupported_body_error :: "'n jsval \<Rightarrow> thrown" where
  "unsupported_body_error result =
     ErrorObj ''Error'' (''Unsupported body type: '' @ js_typeof result @ '', expected: object'')"

definition createBodyFromValue ::
  "'n platform \<Rightarrow> encoding \<Rightarrow> 'n jsval \<Rightarrow> schema \<Rightarrow> (string \<rightharpoonup> schema)
     \<Rightarrow> (string \<rightharpoonup> dynamic_field) \<Rightarrow> (thrown + request_body) option"
where
  "createBodyFromValue rt type v schema references dynamicFields =
     (case convertValue rt ''body'' v (Some schema) references dynamicFields of
        None \<Rightarrow> None
      | Some (Inl e) \<Rightarrow> Some (Inl e)
      | Some (Inr result) \<Rightarrow>
          if type = JsonEncoding then
            Some (Inr (case JSON_stringify rt result of
                         None \<Rightarrow> NoBody
                       | Some text \<Rightarrow> TextBody text))
          else if js_typeof result \<noteq> ''object'' \<or> \<not> truthy rt result then
            Some (Inl (unsupported_body_error result))
          else
            Some (Inr (FormBody
              (foldl (\<lambda>formData key. add_property rt key (js_get result key) formData) []
                 (Object_keys result)))))"

section \<open>The browser-side fetcher\<close>

text \<open>
  \<^verbatim>\<open>FetchOptions\<close>; the field \<^verbatim>\<open>method\<close> is \<open>http_method\<close> here. An absent
  \<^verbatim>\<open>body\<close> is \<^verbatim>\<open>undefined\<close>, an absent \<^verbatim>\<open>dynamicFields\<close> is \<open>None\<close>.
\<close>

record 'n FetchOptions =
  url :: string
  http_method :: string
  type :: encoding
  header :: "(string \<times> 'n jsval) list"
  body :: "'n jsval"
  dynamicFields :: "(string \<rightharpoonup> dynamic_field) option"

datatype result_type = JsonResult | HtmlResult | TextResult

record 'n FetchResult =
  status :: nat
  type :: result_type
  data :: "'n jsval"

text \<open>
  What the browser's \<^verbatim>\<open>fetch\<close> is called with, and what it answers. A response is read
  through its status, its \<^verbatim>\<open>Content-Type\<close> header (\<open>None\<close> for \<^verbatim>\<open>null\<close>) and the
  outcomes of \<^verbatim>\<open>res.json()\<close> and \<^verbatim>\<open>res.text()\<close>, each of which may reject. The
  network is a function from the request to the outcome of the call: a rejection (network
  error, abort after the timeout) or a response.
\<close>

record request =
  req_url :: string
  req_method :: string
  req_headers :: "(string \<times> string) list"
  req_body :: request_body
  req_timeout :: nat

record 'n response =
  res_status :: nat
  res_content_type :: "string option"
  res_json :: "thrown + 'n jsval"
  res_text :: "thrown + string"

text \<open>The outcome of an \<^verbatim>\<open>async\<close> function: the promise resolves or rejects.\<close>

datatype 'a promise = Resolved 'a | Rejected thrown

definition startsWith :: "string \<Rightarrow> string \<Rightarrow> bool" where
  "startsWith s p = (take (length p) s = p)"

definition headers_append ::
  "'n platform \<Rightarrow> string \<Rightarrow> string \<Rightarrow> (string \<times> string) list \<Rightarrow> thrown + (string \<times> string) list"
where
  "headers_append rt name v headers =
     (if header_accepted rt name v then Inr (headers @ [(name, v)])
      else Inl (ErrorObj ''TypeError'' ''Invalid header''))"

text \<open>
  The loop over \<^verbatim>\<open>Object.keys(input.header)\<close>: a value is forwarded when it is a string
  of positive length.
\<close>

definition build_headers :: "'n platform \<Rightarrow> 'n FetchOptions \<Rightarrow> thrown + (string \<times> string) list" where
  "build_headers rt input =
     foldl
       (\<lambda>acc key.
          case acc of
            Inl e \<Rightarrow> Inl e
          | Inr headers \<Rightarrow>
              (case map_of (header input) key of
                 Some (JStr paramValue) \<Rightarrow>
                   if length paramValue > 0 then headers_append rt key paramValue headers
                   else Inr headers
               | _ \<Rightarrow> Inr headers))
       (if FetchOptions.type input \<noteq> FormDataEncoding
        then headers_append rt ''Content-Type'' ''application/json'' []
        else Inr [])
       (map fst (header input))"

text \<open>The handler given to \<^verbatim>\<open>then\<close>.\<close>

definition read_response :: "'n response \<Rightarrow> thrown + 'n FetchResult" where
  "read_response res =
     (let contentType = (case res_content_type res of None \<Rightarrow> [] | Some c \<Rightarrow> c)
      in if startsWith contentType ''application/json'' then
           (case res_json res of
              Inl e \<Rightarrow> Inl e
            | Inr d \<Rightarrow> Inr \<lparr>status = res_status res, type = JsonResult, data = d\<rparr>)
         else
           (case res_text res of
              Inl e \<Rightarrow> Inl e
            | Inr t \<Rightarrow>
                Inr \<lparr>status = res_status res,
                     type = (if startsWith contentType ''text/html'' then HtmlResult else TextResult),
                     data = JStr t\<rparr>))"

text \<open>The handler given to \<^verbatim>\<open>catch\<close>.\<close>

definition error_result :: "thrown \<Rightarrow> 'n FetchResult" where
  "error_result e =
     (let message = (case e of
                       ErrorObj name msg \<Rightarrow> ''['' @ name @ ''] '' @ msg
                     | NonError text \<Rightarrow> text)
      in \<lparr>status = 400, type = TextResult, data = JStr (''Client side error: '' @ message)\<rparr>)"

text \<open>
  The request that the browser's \<^verbatim>\<open>fetch\<close> is called with; the signal is
  \<^verbatim>\<open>AbortSignal.timeout(6000)\<close>.
\<close>

definition make_request :: "'n FetchOptions \<Rightarrow> (string \<times> string) list \<Rightarrow> request_body \<Rightarrow> request" where
  "make_request input headers b =
     \<lparr>req_url = url input, req_method = http_method input, req_headers = headers, req_body = b,
      req_timeout = 6000\<rparr>"

text \<open>
  The argument \<^verbatim>\<open>body\<close> of that call: built from the schema when there is one, with an
  empty map when the input has no dynamic fields.
\<close>

definition build_body ::
  "'n platform \<Rightarrow> schema option \<Rightarrow> (string \<rightharpoonup> schema) \<Rightarrow> 'n FetchOptions
     \<Rightarrow> (thrown + request_body) option"
where
  "build_body rt bodySchema references input =
     (case bodySchema of
        None \<Rightarrow> Some (Inr NoBody)
      | Some schema \<Rightarrow>
          createBodyFromValue rt (FetchOptions.type input) (body input) schema references
            (case dynamicFields input of None \<Rightarrow> Map.empty | Some d \<Rightarrow> d))"

text \<open>
  The chain \<^verbatim>\<open>fetch(...).then(...)\<close>: it rejects when the call rejects and when reading the
  response rejects.
\<close>

definition transport_outcome ::
  "(request \<Rightarrow> thrown + 'n response) \<Rightarrow> request \<Rightarrow> thrown + 'n FetchResult"
where
  "transport_outcome native_fetch req =
     (case native_fetch req of
        Inl e \<Rightarrow> Inl e
      | Inr res \<Rightarrow> read_response res)"

text \<open>
  The \<^verbatim>\<open>fetch\<close> method of the object that \<^verbatim>\<open>createBrowserFetcher(bodySchema, references)\<close>
  returns. The headers and the body are built before the browser's \<^verbatim>\<open>fetch\<close> is called,
  outside the chain that ends in \<^verbatim>\<open>catch\<close>: what they throw rejects the promise of the
  \<^verbatim>\<open>async\<close> function. The result is \<open>None\<close> when body construction does not return.
\<close>

definition fetch ::
  "'n platform \<Rightarrow> (request \<Rightarrow> thrown + 'n response) \<Rightarrow> schema option \<Rightarrow> (string \<rightharpoonup> schema)
     \<Rightarrow> 'n FetchOptions \<Rightarrow> 'n FetchResult promise option"
where
  "fetch rt native_fetch bodySchema references input =
     (case build_headers rt input of
        Inl e \<Rightarrow> Some (Rejected e)
      | Inr headers \<Rightarrow>
          (case build_body rt bodySchema references input of
             None \<Rightarrow> None
           | Some (Inl e) \<Rightarrow> Some (Rejected e)
           | Some (Inr b) \<Rightarrow>
               Some (Resolved
                 (case transport_outcome native_fetch (make_request input headers b) of
                    Inl e \<Rightarrow> error_result e
                  | Inr r \<Rightarrow> r))))"

section \<open>A platform for the examples\<close>

text \<open>
  A small platform on which the examples are evaluated. Its numbers are the naturals and
  \<^verbatim>\<open>NaN\<close> (\<open>None\<close>); \<^verbatim>\<open>Number\<close> reads unsigned decimal numerals and gives \<^verbatim>\<open>NaN\<close>
  for every other text. A header is accepted when its name is not empty and neither the name
  nor the value holds a line break.
\<close>

definition is_digit :: "char \<Rightarrow> bool" where
  "is_digit c = (c \<in> set ''0123456789'')"

fun sample_number :: "nat option jsval \<Rightarrow> nat option" where
  "sample_number (JNum n) = n"
| "sample_number (JStr s) =
     (if s \<noteq> [] \<and> list_all is_digit s
      then Some (foldl (\<lambda>a c. 10 * a + (of_char c - 48)) 0 s) else None)"
| "sample_number (JBool b) = Some (if b then 1 else 0)"
| "sample_number JNull = Some 0"
| "sample_number _ = None"

definition sample_platform :: "nat option platform" where
  "sample_platform =
     \<lparr>to_number = sample_number,
      number_to_string = (\<lambda>n. case n of None \<Rightarrow> ''NaN'' | Some k \<Rightarrow> show_nat k),
      number_is_finite = (\<lambda>n. n \<noteq> None),
      number_is_truthy = (\<lambda>n. n \<noteq> None \<and> n \<noteq> Some 0),
      header_accepted = (\<lambda>name v. name \<noteq> [] \<and> CHR 0x0A \<notin> set (name @ v))\<rparr>"

section \<open>Well-formed JSON text\<close>

text \<open>
  The grammar of JSON text (RFC 8259) without insignificant white space, which
  \<^verbatim>\<open>JSON.stringify\<close> does not write when it is called with one argument. A number is an
  optional minus sign, an integer part without a leading zero, an optional fraction and an
  optional exponent.
\<close>

definition exponent_digits :: "string \<Rightarrow> bool" where
  "exponent_digits s =
     (let t = (case s of
                 [] \<Rightarrow> []
               | c # r \<Rightarrow> if c = CHR ''+'' \<or> c = CHR ''-'' then r else s)
      in t \<noteq> [] \<and> list_all is_digit t)"

definition optional_exponent :: "string \<Rightarrow> bool" where
  "optional_exponent s =
     (case s of
        [] \<Rightarrow> True
      | c # r \<Rightarrow> (c = CHR ''e'' \<or> c = CHR ''E'') \<and> exponent_digits r)"

definition optional_fraction :: "string \<Rightarrow> bool" where
  "optional_fraction s =
     (case s of
        [] \<Rightarrow> True
      | c # r \<Rightarrow>
          if c = CHR ''.'' then
            takeWhile is_digit r \<noteq> [] \<and> optional_exponent (dropWhile is_digit r)
          else optional_exponent s)"

definition json_number :: "string \<Rightarrow> bool" where
  "json_number s =
     (let r = (case s of [] \<Rightarrow> [] | c # t \<Rightarrow> if c = CHR ''-'' then t else s);
          i = takeWhile is_digit r
      in (i = ''0'' \<or> (i \<noteq> [] \<and> hd i \<noteq> CHR ''0'')) \<and> optional_fraction (dropWhile is_digit r))"

definition is_hex :: "char \<Rightarrow> bool" where
  "is_hex c = (c \<in> set ''0123456789abcdefABCDEF'')"

text \<open>
  The characters between the quotes of a string: any character from \<^verbatim>\<open>0x20\<close> on but the
  quote and the backslash, or an escape.
\<close>

fun json_chars :: "string \<Rightarrow> bool" where
  "json_chars [] = True"
| "json_chars (c # s) =
     (if c = CHR 0x5C then
        (case s of
           [] \<Rightarrow> False
         | e # t \<Rightarrow>
             if e = CHR ''u'' then
               (case t of
                  h1 # h2 # h3 # h4 # u \<Rightarrow>
                    is_hex h1 \<and> is_hex h2 \<and> is_hex h3 \<and> is_hex h4 \<and> json_chars u
                | _ \<Rightarrow> False)
             else e \<in> set [CHR 0x22, CHR 0x5C, CHR ''/'', CHR ''b'', CHR ''f'', CHR ''n'',
                           CHR ''r'', CHR ''t'']
                  \<and> json_chars t)
      else c \<noteq> CHR 0x22 \<and> 32 \<le> (of_char c :: nat) \<and> json_chars s)"

inductive json_text :: "string \<Rightarrow> bool"
  and json_elements :: "string \<Rightarrow> bool"
  and json_members :: "string \<Rightarrow> bool"
where
  text_null: "json_text ''null''"
| text_true: "json_text ''true''"
| text_false: "json_text ''false''"
| text_number: "json_number s \<Longrightarrow> json_text s"
| text_string: "json_chars s \<Longrightarrow> json_text (CHR 0x22 # s @ [CHR 0x22])"
| text_empty_array: "json_text ''[]''"
| text_array: "json_elements s \<Longrightarrow> json_text (''['' @ s @ '']'')"
| text_empty_object: "json_text ''{}''"
| text_object: "json_members s \<Longrightarrow> json_text (''{'' @ s @ ''}'')"
| elements_one: "json_text s \<Longrightarrow> json_elements s"
| elements_more: "json_text s \<Longrightarrow> json_elements t \<Longrightarrow> json_elements (s @ '','' @ t)"
| members_one:
    "json_chars k \<Longrightarrow> json_text v \<Longrightarrow> json_members (CHR 0x22 # k @ [CHR 0x22] @ '':'' @ v)"
| members_more:
    "json_chars k \<Longrightarrow> json_text v \<Longrightarrow> json_members t
       \<Longrightarrow> json_members (CHR 0x22 # k @ [CHR 0x22] @ '':'' @ v @ '','' @ t)"

definition member_text :: "string \<Rightarrow> bool" where
  "member_text x =
     (\<exists>k v. json_chars k \<and> json_text v \<and> x = CHR 0x22 # k @ [CHR 0x22] @ '':'' @ v)"

text \<open>The number literals of a JSON tree are numbers of the grammar.\<close>

fun numbers_valid :: "json \<Rightarrow> bool" where
  "numbers_valid (JsonNumber s) = json_number s"
| "numbers_valid (JsonArray js) = list_all numbers_valid js"
| "numbers_valid (JsonObject ms) = list_all (\<lambda>(k, j). numbers_valid j) ms"
| "numbers_valid _ = True"

text \<open>
  What the grammar needs of the engine: the text of a finite number is a number of the
  grammar (as \<^verbatim>\<open>Number.prototype.toString\<close> guarantees).
\<close>

definition numbers_printable :: "'n platform \<Rightarrow> bool" where
  "numbers_printable rt = (\<forall>n. number_is_finite rt n \<longrightarrow> json_number (number_to_string rt n))"

section \<open>Dynamic fields that lead back to a switcher\<close>

text \<open>
  No entry of the dynamic-field map resolves to a schema of type \<^verbatim>\<open>switcher\<close>.
\<close>

definition switcher_free :: "(string \<rightharpoonup> schema) \<Rightarrow> (string \<rightharpoonup> dynamic_field) \<Rightarrow> bool" where
  "switcher_free references dynFields =
     (\<forall>name s r. dynFields name = Some (FieldEntry s) \<longrightarrow> resolve s references \<noteq> Some (SSwitcher r))"

section \<open>Value conversion: emptiness and primitives\<close>

text \<open>
  C4. A field whose raw value is empty (the empty string, \<^verbatim>\<open>undefined\<close> or \<^verbatim>\<open>null\<close>)
  and whose schema is marked required is converted to \<^verbatim>\<open>false\<close> when the type of the
  schema is \<^verbatim>\<open>boolean\<close> and to the empty string otherwise; the result is never the absent
  marker.
\<close>

theorem required_empty_default:
  assumes "isEmpty v" and "isRequired schema"
  shows "convertValue rt fieldName v (Some schema) references dynFields =
           Some (Inr (if schema_type schema = ''boolean'' then JBool False else JStr []))
         \<and> convertValue rt fieldName v (Some schema) references dynFields \<noteq> Some (Inr JUndefined)"
  by (subst convertValue.simps, subst convertValue.simps) (simp add: assms)

theorem required_empty_default_witness:
  "isEmpty (JNull :: nat option jsval) \<and> isRequired (SBoolean True) \<and>
   convertValue sample_platform ''body.flag'' JNull (Some (SBoolean True)) Map.empty Map.empty =
     Some (Inr (JBool False))"
  using required_empty_default [where v = "JNull :: nat option jsval" and schema = "SBoolean True"
      and rt = sample_platform and fieldName = "''body.flag''" and references = Map.empty
      and dynFields = Map.empty]
  by (simp add: isEmpty_def)

text \<open>
  C8. A raw value that is not empty, converted against a boolean schema, gives
  \<^verbatim>\<open>undefined\<close> when it is the string \<^verbatim>\<open>"null"\<close>, \<^verbatim>\<open>true\<close> when it is the string
  \<^verbatim>\<open>"true"\<close>, and \<^verbatim>\<open>false\<close> in every other case, the boolean \<^verbatim>\<open>true\<close> included.
\<close>

theorem boolean_conversion:
  assumes "\<not> isEmpty v"
  shows "convertValue rt fieldName v (Some (SBoolean r)) references dynFields =
           Some (Inr (if v = JStr ''null'' then JUndefined else JBool (v = JStr ''true'')))"
  by (subst convertValue.simps) (simp add: assms)

theorem boolean_conversion_witness:
  "\<not> isEmpty (JBool True :: nat option jsval) \<and>
   convertValue sample_platform ''body.flag'' (JBool True) (Some (SBoolean True)) Map.empty Map.empty =
     Some (Inr (JBool False))"
  using boolean_conversion [where v = "JBool True :: nat option jsval" and r = True
      and rt = sample_platform and fieldName = "''body.flag''" and references = Map.empty
      and dynFields = Map.empty]
  by (simp add: isEmpty_def)

section \<open>Value conversion: termination\<close>

lemma map_results_total:
  assumes "\<And>x. x \<in> set xs \<Longrightarrow> \<exists>r. f x = Some r"
  shows "\<exists>r. map_results f xs = Some r"
  using assms
proof (induction xs)
  case Nil
  show ?case by simp
next
  case (Cons x xs)
  from Cons.prems obtain r where r: "f x = Some r" by auto
  from Cons obtain rs where rs: "map_results f xs = Some rs" by auto
  show ?case by (simp add: r rs split: sum.split)
qed

lemma bind_returns:
  assumes "\<exists>r. m = Some r"
  shows "\<exists>r. Option.bind m (\<lambda>r. Some (g r)) = Some r"
  using assms by auto

lemma convertValue_empty_returns:
  assumes "isEmpty v"
  shows "\<exists>r. convertValue rt f v s refs dyn = Some r"
  using assms by (subst convertValue.simps) (cases s; simp)

lemma resolve_dynamic_not_switcher:
  assumes "switcher_free refs dyn"
  shows "resolve (getDynamicFieldSchema name dyn) refs \<noteq> Some (SSwitcher r)"
  using assms
  by (auto simp: switcher_free_def getDynamicFieldSchema_def resolve_def
           split: option.splits dynamic_field.splits)

text \<open>
  One level of the walk, against a schema that is not a switcher: the call returns when
  the calls on the properties and on the elements of the value do.
\<close>

lemma convertValue_step_plain:
  assumes sub: "\<And>key f s. \<exists>r. convertValue rt f (js_get v key) s refs dyn = Some r"
    and arr: "\<And>xs x f s. v = JArr xs \<Longrightarrow> x \<in> set xs \<Longrightarrow> \<exists>r. convertValue rt f x s refs dyn = Some r"
    and ns: "\<And>r. s \<noteq> Some (SSwitcher r)"
  shows "\<exists>r. convertValue rt f v s refs dyn = Some r"
proof (cases s)
  case None
  then show ?thesis by (subst convertValue.simps) simp
next
  case (Some schema)
  show ?thesis
  proof (cases "isEmpty v")
    case True
    then show ?thesis by (rule convertValue_empty_returns)
  next
    case False
    show ?thesis
    proof (cases schema)
      case (SObject req props addl)
      have "\<exists>r. map_results
                (\<lambda>key. let prop = js_get v key; propFieldName = f @ ''.'' @ key
                   in case map_of props key of
                        Some p \<Rightarrow>
                          Option.bind
                            (convertValue rt propFieldName prop (resolve p refs) refs dyn)
                            (\<lambda>r. Some (map_sum id (Pair key) r))
                      | None \<Rightarrow>
                          if addl then
                            Option.bind
                              (convertValue rt propFieldName prop
                                 (resolve (getDynamicFieldSchema propFieldName dyn) refs) refs dyn)
                              (\<lambda>r. Some (map_sum id (Pair key) r))
                          else Some (Inr (key, prop)))
                (Object_keys v) = Some r"
      proof (rule map_results_total)
        fix key
        show "\<exists>r. (let prop = js_get v key; propFieldName = f @ ''.'' @ key
                   in case map_of props key of
                        Some p \<Rightarrow>
                          Option.bind
                            (convertValue rt propFieldName prop (resolve p refs) refs dyn)
                            (\<lambda>r. Some (map_sum id (Pair key) r))
                      | None \<Rightarrow>
                          if addl then
                            Option.bind
                              (convertValue rt propFieldName prop
                                 (resolve (getDynamicFieldSchema propFieldName dyn) refs) refs dyn)
                              (\<lambda>r. Some (map_sum id (Pair key) r))
                          else Some (Inr (key, prop))) = Some r"
          by (auto simp: Let_def split: option.split intro!: bind_returns sub)
      qed
      then obtain r where "map_results
                (\<lambda>key. let prop = js_get v key; propFieldName = f @ ''.'' @ key
                   in case map_of props key of
                        Some p \<Rightarrow>
                          Option.bind
                            (convertValue rt propFieldName prop (resolve p refs) refs dyn)
                            (\<lambda>r. Some (map_sum id (Pair key) r))
                      | None \<Rightarrow>
                          if addl then
                            Option.bind
                              (convertValue rt propFieldName prop
                                 (resolve (getDynamicFieldSchema propFieldName dyn) refs) refs dyn)
                              (\<lambda>r. Some (map_sum id (Pair key) r))
                          else Some (Inr (key, prop)))
                (Object_keys v) = Some r" ..
      then show ?thesis
        by (subst convertValue.simps) (simp add: Some False SObject)
    next
      case (SArray req items)
      show ?thesis
      proof (cases v)
        case (JArr xs)
        have "\<exists>r. map_results
                  (\<lambda>(index, item). convertValue rt (f @ ''.'' @ show_nat index) item
                                     (resolve items refs) refs dyn)
                  (enumerate 0 xs) = Some r"
        proof (rule map_results_total)
          fix p assume p: "p \<in> set (enumerate 0 xs)"
          obtain i x where px: "p = (i, x)" by (cases p)
          with p have "x \<in> set xs"
            by (auto simp: enumerate_eq_zip dest: set_zip_rightD)
          from arr [OF JArr this]
          show "\<exists>r. (case p of (index, item) \<Rightarrow>
                      convertValue rt (f @ ''.'' @ show_nat index) item (resolve items refs) refs dyn)
                   = Some r"
            by (simp add: px)
        qed
        then obtain r where "map_results
                  (\<lambda>(index, item). convertValue rt (f @ ''.'' @ show_nat index) item
                                     (resolve items refs) refs dyn)
                  (enumerate 0 xs) = Some r" ..
        then show ?thesis
          by (subst convertValue.simps) (simp add: Some False SArray JArr)
      qed (subst convertValue.simps, simp add: Some False SArray)+
    next
      case (SSwitcher r)
      with ns [of r] Some show ?thesis by simp
    qed (subst convertValue.simps, simp add: Some False)+
  qed
qed

text \<open>
  The same for any schema: the switcher path takes one hop to a schema that is not a
  switcher.
\<close>

lemma convertValue_step:
  assumes H: "switcher_free refs dyn"
    and sub: "\<And>key f s. \<exists>r. convertValue rt f (js_get v key) s refs dyn = Some r"
    and arr: "\<And>xs x f s. v = JArr xs \<Longrightarrow> x \<in> set xs \<Longrightarrow> \<exists>r. convertValue rt f x s refs dyn = Some r"
  shows "\<exists>r. convertValue rt f v s refs dyn = Some r"
proof (cases "\<exists>r. s = Some (SSwitcher r)")
  case False
  show ?thesis
  proof (rule convertValue_step_plain)
    show "s \<noteq> Some (SSwitcher r)" for r using False by simp
  qed (rule sub, rule arr)
next
  case True
  then obtain r0 where s: "s = Some (SSwitcher r0)" ..
  show ?thesis
  proof (cases "isEmpty v")
    case True
    then show ?thesis by (rule convertValue_empty_returns)
  next
    case False
    have "\<exists>r. convertValue rt f v (resolve (getDynamicFieldSchema f dyn) refs) refs dyn = Some r"
    proof (rule convertValue_step_plain)
      show "resolve (getDynamicFieldSchema f dyn) refs \<noteq> Some (SSwitcher r)" for r
        by (rule resolve_dynamic_not_switcher [OF H])
    qed (rule sub, rule arr)
    then show ?thesis
      by (subst convertValue.simps) (simp add: s False)
  qed
qed

text \<open>
  C7, as amended. Value conversion terminates, by returning or by throwing, for every raw
  value, every schema (or none, when a reference is dangling), every reference table and
  every dynamic-field map in which no entry resolves to a switcher schema: it is a walk down
  the raw value, and the switcher path takes a single hop.
\<close>

theorem convertValue_terminates:
  assumes "switcher_free refs dyn"
  shows "\<exists>r. convertValue rt f v s refs dyn = Some r"
proof (induction v arbitrary: f s)
  case (JArr xs)
  show ?case
  proof (rule convertValue_step [OF assms])
    fix key f' s'
    show "\<exists>r. convertValue rt f' (js_get (JArr xs) key) s' refs dyn = Some r"
    proof (cases "map_of (own_properties (JArr xs)) key")
      case None
      show ?thesis unfolding js_get_def None
        by (simp add: convertValue_empty_returns isEmpty_def)
    next
      case (Some x)
      then have "x \<in> set xs" by (auto dest!: map_of_SomeD set_zip_rightD)
      with JArr show ?thesis unfolding js_get_def Some by simp
    qed
  next
    fix ys x f' s'
    assume "JArr xs = JArr ys" "x \<in> set ys"
    with JArr show "\<exists>r. convertValue rt f' x s' refs dyn = Some r" by simp
  qed
next
  case (JObj kvs)
  show ?case
  proof (rule convertValue_step [OF assms])
    fix key f' s'
    show "\<exists>r. convertValue rt f' (js_get (JObj kvs) key) s' refs dyn = Some r"
    proof (cases "map_of kvs key")
      case None
      then show ?thesis by (simp add: js_get_def convertValue_empty_returns isEmpty_def)
    next
      case (Some x)
      then have "(key, x) \<in> set kvs" by (rule map_of_SomeD)
      with JObj [of "(key, x)" x] Some show ?thesis by (simp add: js_get_def)
    qed
  qed simp
qed (rule convertValue_step [OF assms], simp_all add: js_get_def convertValue_empty_returns isEmpty_def)+

theorem convertValue_terminates_witness:
  "switcher_free Map.empty [''body.kind'' \<mapsto> FieldEntry (SNumber True)] \<and>
   convertValue sample_platform ''body'' (JObj [(''kind'', JStr ''42'')])
     (Some (SObject True [(''kind'', SSwitcher True)] False)) Map.empty
     [''body.kind'' \<mapsto> FieldEntry (SNumber True)]
   = Some (Inr (JObj [(''kind'', JNum (Some 42))]))"
proof -
  have h: "switcher_free Map.empty [''body.kind'' \<mapsto> FieldEntry (SNumber True)]"
    by (auto simp: switcher_free_def resolve_def split: if_splits)
  from convertValue_terminates [OF h, where rt = sample_platform and f = "''body''"
      and v = "JObj [(''kind'', JStr ''42'')]"
      and s = "Some (SObject True [(''kind'', SSwitcher True)] False)"]
  show ?thesis
    using h
    by (simp add: convertValue.simps isEmpty_def resolve_def getDynamicFieldSchema_def
          Object_keys_def js_get_def Object_fromEntries_def sample_platform_def is_digit_def)
qed

text \<open>
  C7, as stated, fails: with a dynamic-field entry for the path \<^verbatim>\<open>body\<close> that is itself a
  switcher schema, the switcher path calls \<^verbatim>\<open>convertValue\<close> with the arguments it was
  called with, and the call never returns.
\<close>

theorem switcher_loop_counterexample:
  "convertValue sample_platform ''body'' (JStr ''x'') (Some (SSwitcher False)) Map.empty
     [''body'' \<mapsto> FieldEntry (SSwitcher False)] = None"
proof (cases "convertValue sample_platform ''body'' (JStr ''x'') (Some (SSwitcher False)) Map.empty
     [''body'' \<mapsto> FieldEntry (SSwitcher False)]")
  case None
  then show ?thesis .
next
  case (Some y)
  have "\<not> (''body'' = ''body'' \<and> JStr ''x'' = (JStr ''x'' :: nat option jsval)
          \<and> Some (SSwitcher False) = Some (SSwitcher False)
          \<and> Map.empty = (Map.empty :: string \<rightharpoonup> schema)
          \<and> [''body'' \<mapsto> FieldEntry (SSwitcher False)] = [''body'' \<mapsto> FieldEntry (SSwitcher False)])"
    by (rule convertValue.raw_induct [where P = "\<lambda>rt fieldName v s refs dyn y.
          \<not> (fieldName = ''body'' \<and> v = JStr ''x'' \<and> s = Some (SSwitcher False) \<and> refs = Map.empty
             \<and> dyn = [''body'' \<mapsto> FieldEntry (SSwitcher False)])", OF _ Some])
       (clarify, simp add: isEmpty_def getDynamicFieldSchema_def resolve_def, blast)
  then show ?thesis by simp
qed

section \<open>Value conversion: arrays\<close>

lemma map_results_success:
  assumes "\<And>x. x \<in> set xs \<Longrightarrow> \<exists>y. f x = Some (Inr y)"
  shows "\<exists>ys. map_results f xs = Some (Inr ys) \<and> length ys = length xs
              \<and> (\<forall>i<length xs. f (xs ! i) = Some (Inr (ys ! i)))"
  using assms
proof (induction xs)
  case Nil
  show ?case by simp
next
  case (Cons x xs)
  from Cons.prems obtain y where y: "f x = Some (Inr y)" by auto
  from Cons obtain ys where ys: "map_results f xs = Some (Inr ys)" "length ys = length xs"
      "\<forall>i<length xs. f (xs ! i) = Some (Inr (ys ! i))"
    by auto
  have "\<forall>i<length (x # xs). f ((x # xs) ! i) = Some (Inr ((y # ys) ! i))"
  proof (intro allI impI)
    fix i assume "i < length (x # xs)"
    then show "f ((x # xs) ! i) = Some (Inr ((y # ys) ! i))"
      using y ys(3) by (cases i) simp_all
  qed
  then show ?case using y ys(1,2) by simp
qed

text \<open>
  C6, as amended. For an array schema and a raw value that is an array of length \<open>N\<close>,
  whenever the conversion of every element returns, value conversion returns an array of
  the same length \<open>N\<close> whose element \<open>i\<close> is the conversion of the raw element \<open>i\<close> against
  the resolved item schema, with the field path extended by a dot and the decimal index
  \<open>i\<close>.
\<close>

theorem array_conversion:
  assumes "\<forall>i<length xs. \<exists>y.
             convertValue rt (fieldName @ ''.'' @ show_nat i) (xs ! i) (resolve items references)
               references dynFields = Some (Inr y)"
  shows "\<exists>ys. convertValue rt fieldName (JArr xs) (Some (SArray r items)) references dynFields
                 = Some (Inr (JArr ys))
              \<and> length ys = length xs
              \<and> (\<forall>i<length xs.
                    convertValue rt (fieldName @ ''.'' @ show_nat i) (xs ! i)
                      (resolve items references) references dynFields = Some (Inr (ys ! i)))"
proof -
  let ?conv = "\<lambda>(index, item). convertValue rt (fieldName @ ''.'' @ show_nat index) item
                 (resolve items references) references dynFields"
  have "\<exists>y. ?conv p = Some (Inr y)" if "p \<in> set (enumerate 0 xs)" for p
  proof -
    from that obtain i where "i < length xs" "p = (i, xs ! i)"
      by (auto simp: in_set_conv_nth nth_enumerate_eq)
    with assms show ?thesis by simp
  qed
  from map_results_success [of "enumerate 0 xs" ?conv, OF this]
  obtain ys where ys: "map_results ?conv (enumerate 0 xs) = Some (Inr ys)"
      "length ys = length xs"
      "\<forall>i<length xs. ?conv (enumerate 0 xs ! i) = Some (Inr (ys ! i))"
    by auto
  have "convertValue rt fieldName (JArr xs) (Some (SArray r items)) references dynFields
          = Some (Inr (JArr ys))"
    using ys(1) by (subst convertValue.simps) (simp add: isEmpty_def)
  moreover have "\<forall>i<length xs.
      convertValue rt (fieldName @ ''.'' @ show_nat i) (xs ! i) (resolve items references)
        references dynFields = Some (Inr (ys ! i))"
    using ys(3) by (simp add: nth_enumerate_eq)
  ultimately show ?thesis using ys(2) by blast
qed

theorem array_conversion_witness:
  "convertValue sample_platform ''body.ids.0'' (JStr ''x'')
     (resolve (SRef ''Id'') [''Id'' \<mapsto> SNumber True]) [''Id'' \<mapsto> SNumber True] Map.empty
     = Some (Inr (JNum None))
   \<and> convertValue sample_platform ''body.ids.1'' (JStr ''42'')
       (resolve (SRef ''Id'') [''Id'' \<mapsto> SNumber True]) [''Id'' \<mapsto> SNumber True] Map.empty
     = Some (Inr (JNum (Some 42)))
   \<and> (\<exists>ys. convertValue sample_platform ''body.ids'' (JArr [JStr ''x'', JStr ''42''])
              (Some (SArray True (SRef ''Id''))) [''Id'' \<mapsto> SNumber True] Map.empty
              = Some (Inr (JArr ys))
           \<and> length ys = 2)"
proof -
  have e0: "convertValue sample_platform ''body.ids.0'' (JStr ''x'')
       (resolve (SRef ''Id'') [''Id'' \<mapsto> SNumber True]) [''Id'' \<mapsto> SNumber True] Map.empty
     = Some (Inr (JNum None))"
    by (simp add: convertValue.simps isEmpty_def resolve_def sample_platform_def is_digit_def)
  have e1: "convertValue sample_platform ''body.ids.1'' (JStr ''42'')
       (resolve (SRef ''Id'') [''Id'' \<mapsto> SNumber True]) [''Id'' \<mapsto> SNumber True] Map.empty
     = Some (Inr (JNum (Some 42)))"
    by (simp add: convertValue.simps isEmpty_def resolve_def sample_platform_def is_digit_def)
  have h: "\<forall>i<length [JStr ''x'', JStr ''42''].
      \<exists>y. convertValue sample_platform (''body.ids'' @ ''.'' @ show_nat i)
             ([JStr ''x'', JStr ''42''] ! i) (resolve (SRef ''Id'') [''Id'' \<mapsto> SNumber True])
             [''Id'' \<mapsto> SNumber True] Map.empty = Some (Inr y)"
    using e0 e1 by (simp add: All_less_Suc2 numeral_2_eq_2 show_nat.simps)
  from array_conversion [OF h, where r = True] e0 e1 show ?thesis by auto
qed

text \<open>
  C6, as stated, fails: when the item schema is a reference to a name that the reference
  table does not hold, the conversion of the first element throws and no array is
  returned.
\<close>

theorem array_dangling_reference_counterexample:
  "convertValue sample_platform ''body'' (JArr [JStr ''x'']) (Some (SArray True (SRef ''Pet'')))
     Map.empty Map.empty = Some (Inl undefined_schema_error)"
  by (simp add: convertValue.simps isEmpty_def resolve_def enumerate_eq_zip)

section \<open>JSON text of converted values\<close>

lemma hex_digit_is_hex:
  assumes "d < 16"
  shows "is_hex (hex_digit d)"
proof -
  from assms have "d = 0 \<or> d = 1 \<or> d = 2 \<or> d = 3 \<or> d = 4 \<or> d = 5 \<or> d = 6 \<or> d = 7 \<or> d = 8
      \<or> d = 9 \<or> d = 10 \<or> d = 11 \<or> d = 12 \<or> d = 13 \<or> d = 14 \<or> d = 15"
    by arith
  then show ?thesis
    by (elim disjE) (simp_all add: hex_digit_def is_hex_def)
qed

lemma json_chars_escape: "json_chars (escape_char c @ t) = json_chars t"
proof -
  have low: "(of_char c :: nat) < 32 \<Longrightarrow>
      is_hex (hex_digit (of_char c div 16)) \<and> is_hex (hex_digit (of_char c mod 16))"
    by (auto intro!: hex_digit_is_hex)
  show ?thesis
    using low by (auto simp: escape_char_def is_hex_def)
qed

lemma json_chars_escaped: "json_chars (concat (map escape_char s) @ t) = json_chars t"
  by (induction s) (simp_all add: json_chars_escape)

lemma quote_json_text: "json_text (quote_json s)"
  unfolding quote_json_def
  using json_chars_escaped [of s "[]"] by (auto intro: text_string)

lemma json_elements_join:
  assumes "xs \<noteq> []" and "\<And>x. x \<in> set xs \<Longrightarrow> json_text x"
  shows "json_elements (join '','' xs)"
  using assms
proof (induction xs rule: induct_list012)
  case 1
  then show ?case by simp
next
  case (2 x)
  then show ?case by (simp add: elements_one)
next
  case (3 x y zs)
  have "json_elements (join '','' (y # zs))" using 3 by simp
  moreover have "json_text x" using 3 by simp
  ultimately show ?case using elements_more [of x "join '','' (y # zs)"] by simp
qed

lemma json_members_join:
  assumes "xs \<noteq> []" and "\<And>x. x \<in> set xs \<Longrightarrow> member_text x"
  shows "json_members (join '','' xs)"
  using assms
proof (induction xs rule: induct_list012)
  case 1
  then show ?case by simp
next
  case (2 x)
  then have "member_text x" by simp
  then obtain k v where kv: "json_chars k" "json_text v"
      "x = CHR 0x22 # k @ [CHR 0x22] @ '':'' @ v"
    by (auto simp: member_text_def)
  from members_one [OF kv(1) kv(2)] show ?case by (simp add: kv(3))
next
  case (3 x y zs)
  have rest: "json_members (join '','' (y # zs))" using 3 by simp
  have "member_text x" using 3 by simp
  then obtain k v where kv: "json_chars k" "json_text v"
      "x = CHR 0x22 # k @ [CHR 0x22] @ '':'' @ v"
    by (auto simp: member_text_def)
  from members_more [OF kv(1) kv(2) rest] show ?case by (simp add: kv(3))
qed

lemma member_text_quote:
  assumes "json_text v"
  shows "member_text (quote_json k @ '':'' @ v)"
  unfolding member_text_def quote_json_def
  using assms json_chars_escaped [of k "[]"] by auto

text \<open>The text written for a JSON tree is a text of the grammar.\<close>

lemma render_json_valid:
  assumes "numbers_valid j"
  shows "json_text (render_json j)"
  using assms
proof (induction j)
  case JsonNull
  show ?case by (simp add: text_null)
next
  case (JsonBool b)
  show ?case by (simp add: text_true text_false)
next
  case (JsonNumber s)
  then show ?case by (simp add: text_number)
next
  case (JsonString s)
  show ?case by (simp add: quote_json_text)
next
  case (JsonArray js)
  show ?case
  proof (cases "js = []")
    case True
    then show ?thesis by (simp add: text_empty_array)
  next
    case False
    have "json_elements (join '','' (map render_json js))"
    proof (rule json_elements_join)
      show "map render_json js \<noteq> []" using False by simp
    next
      fix x assume "x \<in> set (map render_json js)"
      then obtain j where "j \<in> set js" "x = render_json j" by auto
      with JsonArray show "json_text x" by (auto simp: list_all_iff)
    qed
    from text_array [OF this] show ?thesis by simp
  qed
next
  case (JsonObject ms)
  show ?case
  proof (cases "ms = []")
    case True
    then show ?thesis by (simp add: text_empty_object)
  next
    case False
    have "json_members (join '','' (map (\<lambda>(k, j). quote_json k @ '':'' @ render_json j) ms))"
    proof (rule json_members_join)
      show "map (\<lambda>(k, j). quote_json k @ '':'' @ render_json j) ms \<noteq> []" using False by simp
    next
      fix x assume "x \<in> set (map (\<lambda>(k, j). quote_json k @ '':'' @ render_json j) ms)"
      then obtain k j where kj: "(k, j) \<in> set ms" "x = quote_json k @ '':'' @ render_json j"
        by auto
      from kj(1) JsonObject.prems have "numbers_valid j" by (auto simp: list_all_iff)
      with JsonObject.IH [of "(k, j)" j] kj(1) have "json_text (render_json j)" by simp
      then show "member_text x" unfolding kj(2) by (rule member_text_quote)
    qed
    from text_object [OF this] show ?thesis by simp
  qed
qed

lemma serialize_numbers_valid:
  assumes "numbers_printable rt" and "serialize_property rt v = Some j"
  shows "numbers_valid j"
  using assms(2)
proof (induction v arbitrary: j)
  case (JNum n)
  with assms(1) show ?case by (auto simp: numbers_printable_def split: if_splits)
next
  case (JArr xs)
  have "numbers_valid (case serialize_property rt x of None \<Rightarrow> JsonNull | Some j \<Rightarrow> j)"
    if "x \<in> set xs" for x
    using JArr.IH [OF that] by (cases "serialize_property rt x") simp_all
  with JArr.prems show ?case by (auto simp: list_all_iff)
next
  case (JObj kvs)
  have "numbers_valid j'"
    if "(k, x) \<in> set kvs" "serialize_property rt x = Some j'" for k x j'
    using JObj.IH [of "(k, x)" x j'] that by simp
  with JObj.prems show ?case
    by (auto simp: list_all_iff split: option.splits)
qed auto

lemma stringify_valid:
  assumes "numbers_printable rt" and "JSON_stringify rt v = Some text"
  shows "json_text text"
  using assms serialize_numbers_valid [OF assms(1)] render_json_valid
  by (auto simp: JSON_stringify_def)

lemma serialize_none_iff: "serialize_property rt v = None \<longleftrightarrow> v = JUndefined"
  by (cases v) simp_all

lemma stringify_defined: "v \<noteq> JUndefined \<Longrightarrow> \<exists>text. JSON_stringify rt v = Some text"
  using serialize_none_iff [of rt v] by (cases "serialize_property rt v") (simp_all add: JSON_stringify_def)

text \<open>The grammar rejects the empty text and the bare word \<^verbatim>\<open>undefined\<close>.\<close>

lemma json_text_not_empty: "\<not> json_text []"
  by (subst json_text.simps) (simp add: json_number_def optional_fraction_def)

lemma json_text_not_undefined: "\<not> json_text ''undefined''"
  by (subst json_text.simps) (simp add: json_number_def is_digit_def)


subsection \<open>The numbers of the example platform\<close>

lemma digit_is_digit:
  assumes "d < 10"
  shows "is_digit (''0123456789'' ! d)"
proof -
  from assms have "d = 0 \<or> d = 1 \<or> d = 2 \<or> d = 3 \<or> d = 4 \<or> d = 5 \<or> d = 6 \<or> d = 7 \<or> d = 8 \<or> d = 9"
    by arith
  then show ?thesis by (elim disjE) (simp_all add: is_digit_def)
qed

lemma digit_zero:
  assumes "d < 10" and "''0123456789'' ! d = CHR ''0''"
  shows "d = 0"
proof -
  from assms(1) have "d = 0 \<or> d = 1 \<or> d = 2 \<or> d = 3 \<or> d = 4 \<or> d = 5 \<or> d = 6 \<or> d = 7 \<or> d = 8 \<or> d = 9"
    by arith
  then show ?thesis using assms(2) by (elim disjE) simp_all
qed

lemma show_nat_digits: "show_nat n \<noteq> [] \<and> list_all is_digit (show_nat n)"
proof (induction n rule: show_nat.induct)
  case (1 n)
  show ?case
  proof (cases "n < 10")
    case True
    then show ?thesis by (subst (1 2) show_nat.simps) (simp add: digit_is_digit)
  next
    case False
    with 1 show ?thesis by (subst (1 2) show_nat.simps) (simp add: digit_is_digit)
  qed
qed

lemma show_nat_leading: "hd (show_nat n) = CHR ''0'' \<Longrightarrow> n = 0"
proof (induction n rule: show_nat.induct)
  case (1 n)
  show ?case
  proof (cases "n < 10")
    case True
    with 1(2) show ?thesis by (subst (asm) show_nat.simps) (simp add: digit_zero)
  next
    case False
    with 1(2) have "hd (show_nat (n div 10)) = CHR ''0''"
      using show_nat_digits [of "n div 10"] by (subst (asm) show_nat.simps) simp
    with 1(1) False have "n div 10 = 0" by simp
    with False show ?thesis by simp
  qed
qed

lemma json_number_show_nat: "json_number (show_nat n)"
proof -
  obtain c t where ct: "show_nat n = c # t"
    using show_nat_digits [of n] by (cases "show_nat n") auto
  with show_nat_digits [of n] have c: "is_digit c" "list_all is_digit t" by auto
  then have nm: "c \<noteq> CHR ''-''" by (auto simp: is_digit_def)
  have tw: "takeWhile is_digit (c # t) = c # t" "dropWhile is_digit (c # t) = []"
    using c by (auto simp: list_all_iff)
  have lead: "c # t = ''0'' \<or> c \<noteq> CHR ''0''"
  proof (cases "c = CHR ''0''")
    case True
    with ct have "hd (show_nat n) = CHR ''0''" by simp
    then have "n = 0" by (rule show_nat_leading)
    then have "show_nat n = ''0''" by (simp add: show_nat.simps)
    with ct show ?thesis by simp
  qed simp
  show ?thesis
    unfolding json_number_def ct Let_def
    using nm lead by (simp add: tw optional_fraction_def del: takeWhile.simps dropWhile.simps)
qed

lemma sample_platform_printable: "numbers_printable sample_platform"
  by (auto simp: numbers_printable_def sample_platform_def json_number_show_nat)

section \<open>The JSON body\<close>








text \<open>
  C3, as amended. Whenever value conversion of the body returns a value other than the
  absent marker, building the body with encoding \<^verbatim>\<open>json\<close> produces a text, and the text
  is valid JSON (on an engine that writes a finite number as a JSON number). Nothing is
  claimed here for the absent marker or for a conversion that throws.
\<close>

theorem json_body_valid:
  assumes "numbers_printable rt"
    and "convertValue rt ''body'' v (Some schema) references dynFields = Some (Inr result)"
    and "result \<noteq> JUndefined"
  shows "\<exists>text. createBodyFromValue rt JsonEncoding v schema references dynFields
                  = Some (Inr (TextBody text))
               \<and> json_text text"
proof -
  from stringify_defined [OF assms(3)]
  obtain payload where payload: "JSON_stringify rt result = Some payload"
    by blast
  from stringify_valid [OF assms(1) payload] have "json_text payload" .
  moreover have "createBodyFromValue rt JsonEncoding v schema references dynFields
                   = Some (Inr (TextBody payload))"
    by (simp add: createBodyFromValue_def assms(2) payload)
  ultimately show ?thesis by blast
qed

theorem json_body_valid_witness:
  "numbers_printable sample_platform
   \<and> convertValue sample_platform ''body'' (JObj [(''name'', JStr ''x''), (''age'', JStr ''42'')])
       (Some (SObject True [(''name'', SString True), (''age'', SNumber False)] False))
       Map.empty Map.empty
       = Some (Inr (JObj [(''name'', JStr ''x''), (''age'', JNum (Some 42))]))
   \<and> JObj [(''name'', JStr ''x''), (''age'', JNum (Some 42))] \<noteq> JUndefined
   \<and> (\<exists>text. createBodyFromValue sample_platform JsonEncoding
                (JObj [(''name'', JStr ''x''), (''age'', JStr ''42'')])
                (SObject True [(''name'', SString True), (''age'', SNumber False)] False)
                Map.empty Map.empty = Some (Inr (TextBody text))
             \<and> json_text text)"
proof -
  have conv: "convertValue sample_platform ''body'' (JObj [(''name'', JStr ''x''), (''age'', JStr ''42'')])
       (Some (SObject True [(''name'', SString True), (''age'', SNumber False)] False))
       Map.empty Map.empty
       = Some (Inr (JObj [(''name'', JStr ''x''), (''age'', JNum (Some 42))]))"
    by (simp add: convertValue.simps isEmpty_def resolve_def Object_keys_def js_get_def
          Object_fromEntries_def sample_platform_def is_digit_def)
  have ne: "JObj [(''name'', JStr ''x''), (''age'', JNum (Some 42))] \<noteq> (JUndefined :: nat option jsval)"
    by simp
  from json_body_valid [OF sample_platform_printable conv ne] conv sample_platform_printable
  show ?thesis by simp
qed

text \<open>
  C3, as stated, fails: an absent body converted against a schema that is not required is
  the absent marker, for which \<^verbatim>\<open>JSON.stringify\<close> returns \<^verbatim>\<open>undefined\<close>, not a text.
\<close>

theorem json_body_undefined_counterexample:
  "createBodyFromValue sample_platform JsonEncoding JUndefined (SString False) Map.empty Map.empty
     = Some (Inr NoBody)"
  by (simp add: createBodyFromValue_def convertValue.simps isEmpty_def JSON_stringify_def)

section \<open>The form-data body\<close>

lemma formdata_set_names: "fst ` set (formdata_set name v fd) \<subseteq> insert name (fst ` set fd)"
  by (induction fd) auto

lemma append_files_names:
  "fst ` set (foldl (\<lambda>fd item. case item of
                       JFile f \<Rightarrow> formdata_append key (FormFile f) fd
                     | _ \<Rightarrow> fd) fd items)
     \<subseteq> insert key (fst ` set fd)"
proof (induction items arbitrary: fd)
  case Nil
  show ?case by auto
next
  case (Cons item items)
  show ?case
    using Cons [of "case item of JFile f \<Rightarrow> formdata_append key (FormFile f) fd | _ \<Rightarrow> fd"]
    by (cases item) (auto simp: formdata_append_def)
qed

lemma formdata_set_or_keep_names:
  "fst ` set (if c then formdata_set name v fd else fd) \<subseteq> insert name (fst ` set fd)"
  using formdata_set_names [of name v fd] by auto

lemma add_property_names:
  "fst ` set (add_property rt key prop fd) \<subseteq> insert key (fst ` set fd)"
proof (cases "prop")
  case (JFile f)
  then show ?thesis
    using formdata_set_names [of key "FormFile f" fd] by (simp add: add_property_def)
next
  case (JArr items)
  let ?fd2 = "if list_all is_File items then
                foldl (\<lambda>fd item. case item of
                           JFile f \<Rightarrow> formdata_append key (FormFile f) fd
                         | _ \<Rightarrow> fd) fd items
              else fd"
  have two: "fst ` set ?fd2 \<subseteq> insert key (fst ` set fd)"
    using append_files_names [of key fd items] by auto
  have "fst ` set (formdata_set key (form_text rt prop) ?fd2) \<subseteq> insert key (fst ` set ?fd2)"
    by (rule formdata_set_names)
  with two have "fst ` set (formdata_set key (form_text rt prop) ?fd2) \<subseteq> insert key (fst ` set fd)"
    by blast
  then show ?thesis by (simp add: add_property_def JArr)
qed (simp_all add: add_property_def formdata_set_or_keep_names formdata_set_names subset_insertI)

lemma add_property_falsy:
  assumes "\<not> truthy rt prop"
  shows "add_property rt key prop fd = fd"
  using assms by (cases "prop") (simp_all add: add_property_def)

lemma fold_properties_omit:
  assumes "key \<notin> fst ` set fd" and "\<not> truthy rt (js_get result key)"
  shows "key \<notin> fst ` set (foldl (\<lambda>formData k. add_property rt k (js_get result k) formData) fd keys)"
  using assms(1)
proof (induction keys arbitrary: fd)
  case Nil
  then show ?case by simp
next
  case (Cons k keys)
  have "key \<notin> fst ` set (add_property rt k (js_get result k) fd)"
  proof (cases "k = key")
    case True
    with assms(2) Cons.prems show ?thesis by (simp add: add_property_falsy)
  next
    case False
    with Cons.prems add_property_names [of rt k "js_get result k" fd] show ?thesis by auto
  qed
  from Cons.IH [OF this] show ?case by simp
qed

text \<open>A conversion never returns \<^verbatim>\<open>null\<close>.\<close>

lemma bind_not_null:
  assumes "Option.bind m (\<lambda>r. Some (map_sum id g r)) = Some (Inr y)" and "\<And>x. g x \<noteq> JNull"
  shows "y \<noteq> JNull"
proof (cases m)
  case None
  with assms(1) show ?thesis by simp
next
  case (Some r)
  with assms show ?thesis by (cases r) auto
qed

lemma convertValue_not_null:
  assumes "convertValue rt f v s refs dyn = Some (Inr JNull)"
  shows False
proof -
  have "Inr JNull \<noteq> (Inr JNull :: thrown + 'a jsval)"
    by (rule convertValue.raw_induct [where P = "\<lambda>rt f v s refs dyn y. y \<noteq> Inr JNull", OF _ assms])
       (auto simp: isEmpty_def Object_fromEntries_def
             split: option.splits if_splits schema.splits jsval.splits
             dest!: bind_not_null)
  then show False by simp
qed

text \<open>
  C9, as amended. When a body is built with encoding \<^verbatim>\<open>form-data\<close> and the
  \<^verbatim>\<open>typeof\<close> of the converted root value is not \<^verbatim>\<open>'object'\<close> (the root is
  \<^verbatim>\<open>undefined\<close>, a boolean, a number or a string), the operation throws an error whose
  message names that \<^verbatim>\<open>typeof\<close>, and no \<^verbatim>\<open>FormData\<close> is returned. A converted root
  whose \<^verbatim>\<open>typeof\<close> is \<^verbatim>\<open>'object'\<close>, an array or a \<^verbatim>\<open>File\<close> included, passes the
  test, and the \<^verbatim>\<open>FormData\<close> built from its own enumerable properties is returned.
\<close>

theorem form_data_root_not_object:
  assumes "convertValue rt ''body'' v (Some schema) references dynFields = Some (Inr result)"
  shows "(js_typeof result \<noteq> ''object'' \<longrightarrow>
            createBodyFromValue rt FormDataEncoding v schema references dynFields
              = Some (Inl (ErrorObj ''Error''
                   (''Unsupported body type: '' @ js_typeof result @ '', expected: object'')))
          \<and> (\<forall>formData. createBodyFromValue rt FormDataEncoding v schema references dynFields
                 \<noteq> Some (Inr (FormBody formData))))
       \<and> (js_typeof result = ''object'' \<longrightarrow>
            createBodyFromValue rt FormDataEncoding v schema references dynFields
              = Some (Inr (FormBody
                  (foldl (\<lambda>formData key. add_property rt key (js_get result key) formData) []
                     (Object_keys result)))))"
proof -
  from assms have "result \<noteq> JNull" using convertValue_not_null by blast
  then have "js_typeof result = ''object'' \<Longrightarrow> truthy rt result"
    by (cases result) simp_all
  with assms show ?thesis
    by (auto simp: createBodyFromValue_def unsupported_body_error_def)
qed

theorem form_data_root_not_object_witness:
  "convertValue sample_platform ''body'' (JStr ''x'') (Some (SString True)) Map.empty Map.empty
     = Some (Inr (JStr ''x''))
   \<and> js_typeof (JStr ''x'' :: nat option jsval) \<noteq> ''object''
   \<and> createBodyFromValue sample_platform FormDataEncoding (JStr ''x'') (SString True) Map.empty Map.empty
       = Some (Inl (ErrorObj ''Error'' ''Unsupported body type: string, expected: object''))"
proof -
  have conv: "convertValue sample_platform ''body'' (JStr ''x'') (Some (SString True)) Map.empty Map.empty
     = Some (Inr (JStr ''x''))"
    by (simp add: convertValue.simps isEmpty_def)
  have ty: "js_typeof (JStr ''x'' :: nat option jsval) \<noteq> ''object''" by simp
  from form_data_root_not_object [OF conv] ty conv show ?thesis by simp
qed

text \<open>
  C9, as stated, fails: a root that is converted to an array is not an object of the data
  model, yet its \<^verbatim>\<open>typeof\<close> is \<^verbatim>\<open>'object'\<close>; no error is raised and a \<^verbatim>\<open>FormData\<close> with
  the entry \<^verbatim>\<open>0\<close> is returned.
\<close>

theorem form_data_array_root_counterexample:
  "createBodyFromValue sample_platform FormDataEncoding (JArr [JFile 1])
     (SArray True (SFile True)) Map.empty Map.empty
   = Some (Inr (FormBody [(''0'', FormFile 1)]))"
  by (simp add: createBodyFromValue_def convertValue.simps isEmpty_def resolve_def Object_keys_def
        js_get_def enumerate_eq_zip add_property_def show_nat.simps)

text \<open>
  C10. In a form-data body, a top-level key whose converted value is falsy and not a
  \<^verbatim>\<open>File\<close> has no entry in the resulting \<^verbatim>\<open>FormData\<close>; the boolean \<^verbatim>\<open>false\<close> and the
  empty string that conversion substitutes for required empty fields are such values.
\<close>

theorem falsy_property_omitted:
  assumes "convertValue rt ''body'' v (Some schema) references dynFields = Some (Inr result)"
    and "createBodyFromValue rt FormDataEncoding v schema references dynFields
           = Some (Inr (FormBody formData))"
    and "key \<in> set (Object_keys result)"
    and "\<not> truthy rt (js_get result key)"
    and "\<not> is_File (js_get result key)"
  shows "key \<notin> fst ` set formData
         \<and> \<not> truthy rt (JBool False) \<and> \<not> truthy rt (JStr [])"
proof -
  from assms(1,2) have "formData =
      foldl (\<lambda>formData k. add_property rt k (js_get result k) formData) [] (Object_keys result)"
    by (simp add: createBodyFromValue_def split: if_splits)
  with fold_properties_omit [of key "[]" rt result "Object_keys result"] assms(4)
  show ?thesis by simp
qed

theorem falsy_property_omitted_witness:
  "convertValue sample_platform ''body''
     (JObj [(''flag'', JStr []), (''name'', JNull), (''avatar'', JFile 7)])
     (Some (SObject True
        [(''flag'', SBoolean True), (''name'', SString True), (''avatar'', SFile True)] False))
     Map.empty Map.empty
     = Some (Inr (JObj [(''flag'', JBool False), (''name'', JStr []), (''avatar'', JFile 7)]))
   \<and> createBodyFromValue sample_platform FormDataEncoding
       (JObj [(''flag'', JStr []), (''name'', JNull), (''avatar'', JFile 7)])
       (SObject True
          [(''flag'', SBoolean True), (''name'', SString True), (''avatar'', SFile True)] False)
       Map.empty Map.empty
     = Some (Inr (FormBody [(''avatar'', FormFile 7)]))
   \<and> ''flag'' \<in> set (Object_keys
        (JObj [(''flag'', JBool False), (''name'', JStr []), (''avatar'', JFile 7 :: nat option jsval)]))
   \<and> \<not> truthy sample_platform
        (js_get (JObj [(''flag'', JBool False), (''name'', JStr []), (''avatar'', JFile 7)]) ''flag'')
   \<and> \<not> is_File
        (js_get (JObj [(''flag'', JBool False), (''name'', JStr []), (''avatar'', JFile 7 :: nat option jsval)])
           ''flag'')
   \<and> ''flag'' \<notin> fst ` set [(''avatar'', FormFile 7)]"
proof -
  let ?result = "JObj [(''flag'', JBool False), (''name'', JStr []), (''avatar'', JFile 7)]
                   :: nat option jsval"
  have conv: "convertValue sample_platform ''body''
     (JObj [(''flag'', JStr []), (''name'', JNull), (''avatar'', JFile 7)])
     (Some (SObject True
        [(''flag'', SBoolean True), (''name'', SString True), (''avatar'', SFile True)] False))
     Map.empty Map.empty = Some (Inr ?result)"
    by (simp add: convertValue.simps isEmpty_def resolve_def Object_keys_def js_get_def
          Object_fromEntries_def)
  have built: "createBodyFromValue sample_platform FormDataEncoding
       (JObj [(''flag'', JStr []), (''name'', JNull), (''avatar'', JFile 7)])
       (SObject True
          [(''flag'', SBoolean True), (''name'', SString True), (''avatar'', SFile True)] False)
       Map.empty Map.empty
     = Some (Inr (FormBody [(''avatar'', FormFile 7)]))"
    by (simp add: createBodyFromValue_def conv Object_keys_def js_get_def add_property_def)
  have k: "''flag'' \<in> set (Object_keys ?result)" by (simp add: Object_keys_def)
  have f: "\<not> truthy sample_platform (js_get ?result ''flag'')" by (simp add: js_get_def)
  have nf: "\<not> is_File (js_get ?result ''flag'')" by (simp add: js_get_def)
  from falsy_property_omitted [OF conv built k f nf] conv built k f nf
  show ?thesis by simp
qed

text \<open>
  C2 at an array of files. The second \<^verbatim>\<open>if\<close> appends one entry per file under the key;
  the third \<^verbatim>\<open>if\<close>, which is not an \<^verbatim>\<open>else\<close>, then holds as well (an array is truthy and
  is not a \<^verbatim>\<open>File\<close>) and \<^verbatim>\<open>set\<close> replaces those entries by the single text
  \<^verbatim>\<open>[{},{}]\<close>.
\<close>

theorem file_array_overwritten:
  "createBodyFromValue sample_platform FormDataEncoding
     (JObj [(''files'', JArr [JFile 1, JFile 2])])
     (SObject True [(''files'', SArray True (SFile True))] False) Map.empty Map.empty
   = Some (Inr (FormBody [(''files'', FormText ''[{},{}]'')]))"
  by (simp add: createBodyFromValue_def convertValue.simps isEmpty_def resolve_def Object_keys_def
        js_get_def Object_fromEntries_def enumerate_eq_zip add_property_def formdata_append_def
        form_text_def JSON_stringify_def)

theorem file_array_overwritten_witness:
  "\<exists>formData.
     createBodyFromValue sample_platform FormDataEncoding
       (JObj [(''files'', JArr [JFile 1, JFile 2])])
       (SObject True [(''files'', SArray True (SFile True))] False) Map.empty Map.empty
     = Some (Inr (FormBody formData))
   \<and> FormFile 1 \<notin> snd ` set formData \<and> FormFile 2 \<notin> snd ` set formData"
  using file_array_overwritten by simp

section \<open>The fetch operation\<close>

text \<open>
  C1, as amended. Whenever building the headers and building the body return without
  throwing, the promise returned by the fetch operation resolves to a result and does not
  reject: every transport-level failure (the browser's \<^verbatim>\<open>fetch\<close> rejects, or reading
  the response rejects) is converted into a result with status 400, type \<^verbatim>\<open>text\<close>, and
  the text \<^verbatim>\<open>Client side error: \<close> followed by \<^verbatim>\<open>[name] message\<close> for an
  \<^verbatim>\<open>Error\<close> and by the string form of any other thrown value.
\<close>

theorem fetch_resolves:
  assumes "build_headers rt input = Inr headers"
    and "build_body rt bodySchema references input = Some (Inr b)"
  shows "\<exists>result.
           fetch rt native_fetch bodySchema references input = Some (Resolved result)
         \<and> (\<forall>e. (native_fetch (make_request input headers b) = Inl e
                 \<or> (\<exists>res. native_fetch (make_request input headers b) = Inr res
                          \<and> read_response res = Inl e))
               \<longrightarrow> status result = 400
                 \<and> FetchResult.type result = TextResult
                 \<and> data result =
                     JStr (''Client side error: '' @
                       (case e of
                          ErrorObj name msg \<Rightarrow> ''['' @ name @ ''] '' @ msg
                        | NonError s \<Rightarrow> s)))"
  using assms
  by (auto simp: fetch_def transport_outcome_def error_result_def split: sum.splits thrown.splits)

theorem fetch_resolves_witness:
  "build_headers sample_platform
     \<lparr>url = ''/pets'', http_method = ''POST'', type = JsonEncoding,
      header = [(''Authorization'', JStr ''Bearer t''), (''X-Trace'', JStr [])],
      body = JObj [(''name'', JStr ''x'')], dynamicFields = None\<rparr>
     = Inr [(''Content-Type'', ''application/json''), (''Authorization'', ''Bearer t'')]
   \<and> build_body sample_platform (Some (SObject True [(''name'', SString True)] False)) Map.empty
       \<lparr>url = ''/pets'', http_method = ''POST'', type = JsonEncoding,
        header = [(''Authorization'', JStr ''Bearer t''), (''X-Trace'', JStr [])],
        body = JObj [(''name'', JStr ''x'')], dynamicFields = None\<rparr>
     = Some (Inr (TextBody (''{'' @ quote_json ''name'' @ '':'' @ quote_json ''x'' @ ''}'')))
   \<and> fetch sample_platform (\<lambda>req. Inl (ErrorObj ''TimeoutError'' ''signal timed out''))
       (Some (SObject True [(''name'', SString True)] False)) Map.empty
       \<lparr>url = ''/pets'', http_method = ''POST'', type = JsonEncoding,
        header = [(''Authorization'', JStr ''Bearer t''), (''X-Trace'', JStr [])],
        body = JObj [(''name'', JStr ''x'')], dynamicFields = None\<rparr>
     = Some (Resolved
         \<lparr>status = 400, type = TextResult,
          data = JStr ''Client side error: [TimeoutError] signal timed out''\<rparr>)"
proof -
  let ?input = "\<lparr>url = ''/pets'', http_method = ''POST'', type = JsonEncoding,
      header = [(''Authorization'', JStr ''Bearer t''), (''X-Trace'', JStr [])],
      body = JObj [(''name'', JStr ''x'')], dynamicFields = None\<rparr> :: nat option FetchOptions"
  have h: "build_headers sample_platform ?input
     = Inr [(''Content-Type'', ''application/json''), (''Authorization'', ''Bearer t'')]"
    by (simp add: build_headers_def headers_append_def sample_platform_def)
  have b: "build_body sample_platform (Some (SObject True [(''name'', SString True)] False))
       Map.empty ?input
     = Some (Inr (TextBody (''{'' @ quote_json ''name'' @ '':'' @ quote_json ''x'' @ ''}'')))"
    by (simp add: build_body_def createBodyFromValue_def convertValue.simps isEmpty_def resolve_def
          Object_keys_def js_get_def Object_fromEntries_def JSON_stringify_def)
  from fetch_resolves [OF h b,
      where native_fetch = "\<lambda>req. Inl (ErrorObj ''TimeoutError'' ''signal timed out'')"]
  obtain result where r: "fetch sample_platform (\<lambda>req. Inl (ErrorObj ''TimeoutError'' ''signal timed out''))
       (Some (SObject True [(''name'', SString True)] False)) Map.empty ?input = Some (Resolved result)"
      "status result = 400" "FetchResult.type result = TextResult"
      "data result = JStr ''Client side error: [TimeoutError] signal timed out''"
    by auto
  from r(2,3,4) have "result = \<lparr>status = 400, type = TextResult,
          data = JStr ''Client side error: [TimeoutError] signal timed out''\<rparr>"
    by (cases result) simp
  with r(1) h b show ?thesis by simp
qed

text \<open>
  C1, as stated, fails: the body is built before the browser's \<^verbatim>\<open>fetch\<close> is called and
  outside the chain that ends in \<^verbatim>\<open>catch\<close>. With encoding \<^verbatim>\<open>form-data\<close> and a body
  that converts to a string, body construction throws and the promise rejects.
\<close>

theorem fetch_rejects_counterexample:
  "fetch sample_platform (\<lambda>req. Inl (ErrorObj ''TypeError'' ''Failed to fetch''))
     (Some (SString True)) Map.empty
     \<lparr>url = ''/pets'', http_method = ''POST'', type = FormDataEncoding, header = [],
      body = JStr ''x'', dynamicFields = None\<rparr>
   = Some (Rejected (ErrorObj ''Error'' ''Unsupported body type: string, expected: object''))"
  by (simp add: fetch_def build_headers_def build_body_def createBodyFromValue_def
        convertValue.simps isEmpty_def unsupported_body_error_def)

end
